theory Spec2Isabelle
  imports Main "HOL-Library.Word"
begin

unbundle bit_operations_syntax

section \<open>Common data (include/secure\_comm.h)\<close>

text \<open>
  The error codes of \<^verbatim>\<open>SecureCommError\<close>, one constructor per enumerator, and the
  integer each enumerator stands for.
\<close>

datatype SecureCommError =
    SECURE_COMM_SUCCESS
  | SECURE_COMM_ERR_INIT
  | SECURE_COMM_ERR_SOCKET
  | SECURE_COMM_ERR_ADDRESS
  | SECURE_COMM_ERR_CONNECT
  | SECURE_COMM_ERR_SSL_CTX
  | SECURE_COMM_ERR_SSL
  | SECURE_COMM_ERR_SEND
  | SECURE_COMM_ERR_RECV
  | SECURE_COMM_ERR_MEMORY
  | SECURE_COMM_ERR_ENCRYPT
  | SECURE_COMM_ERR_DECRYPT
  | SECURE_COMM_ERR_COMPRESS
  | SECURE_COMM_ERR_DECOMPRESS
  | SECURE_COMM_ERR_SESSION
  | SECURE_COMM_ERR_CONFIG
  | SECURE_COMM_ERR_LOG

fun error_code :: "SecureCommError \<Rightarrow> int" where
  "error_code SECURE_COMM_SUCCESS = 0"
| "error_code SECURE_COMM_ERR_INIT = -1"
| "error_code SECURE_COMM_ERR_SOCKET = -2"
| "error_code SECURE_COMM_ERR_ADDRESS = -3"
| "error_code SECURE_COMM_ERR_CONNECT = -4"
| "error_code SECURE_COMM_ERR_SSL_CTX = -5"
| "error_code SECURE_COMM_ERR_SSL = -6"
| "error_code SECURE_COMM_ERR_SEND = -7"
| "error_code SECURE_COMM_ERR_RECV = -8"
| "error_code SECURE_COMM_ERR_MEMORY = -9"
| "error_code SECURE_COMM_ERR_ENCRYPT = -10"
| "error_code SECURE_COMM_ERR_DECRYPT = -11"
| "error_code SECURE_COMM_ERR_COMPRESS = -12"
| "error_code SECURE_COMM_ERR_DECOMPRESS = -13"
| "error_code SECURE_COMM_ERR_SESSION = -14"
| "error_code SECURE_COMM_ERR_CONFIG = -15"
| "error_code SECURE_COMM_ERR_LOG = -16"

type_synonym byte = "8 word"

text \<open>
  Everything a function does besides returning is recorded, in program order, as a list
  of events: lines printed, heap objects obtained and given back (a released buffer is
  recorded with the bytes it holds at that moment), calls of \<^verbatim>\<open>log_message\<close>, and
  the calls that create, use or wipe key material.
\<close>

datatype resource =
    R_session
  | R_username
  | R_pkey_ctx
  | R_dh_params
  | R_dh_keypair
  | R_peer_key
  | R_secret
  | R_session_key
  | R_cipher_ctx

datatype LogLevel = LOG_LEVEL_ERROR | LOG_LEVEL_WARN | LOG_LEVEL_INFO | LOG_LEVEL_DEBUG

datatype event =
    Ev_stderr string
  | Ev_stdout string
  | Ev_log LogLevel string
  | Ev_alloc resource
  | Ev_free resource
  | Ev_free_buf resource "byte list"
  | Ev_call string

section \<open>Primitives of the crypto library\<close>

text \<open>
  The repository calls OpenSSL for hashing, key agreement and authenticated encryption.
  The library is not part of the repository; the functions the code reaches are modelled
  here from the public standards they implement: SHA-256 (FIPS 180-4), the arithmetic of
  finite-field Diffie-Hellman, AES-256 (FIPS 197) and GCM (NIST SP 800-38D).
\<close>

definition be32_of_bytes :: "byte list \<Rightarrow> 32 word" where
  "be32_of_bytes bs = foldl (\<lambda>acc b. push_bit 8 acc OR ucast b) 0 (take 4 bs)"

definition bytes_of_be32 :: "32 word \<Rightarrow> byte list" where
  "bytes_of_be32 w = [ucast (drop_bit 24 w), ucast (drop_bit 16 w), ucast (drop_bit 8 w), ucast w]"

definition bytes_of_be64 :: "64 word \<Rightarrow> byte list" where
  "bytes_of_be64 w = map (\<lambda>i. ucast (drop_bit (8 * (7 - i)) w)) [0 ..< 8]"

definition sha256_K :: "32 word list" where
  "sha256_K =
     [1116352408, 1899447441, 3049323471, 3921009573, 961987163, 1508970993,
      2453635748, 2870763221, 3624381080, 310598401, 607225278, 1426881987,
      1925078388, 2162078206, 2614888103, 3248222580, 3835390401, 4022224774,
      264347078, 604807628, 770255983, 1249150122, 1555081692, 1996064986,
      2554220882, 2821834349, 2952996808, 3210313671, 3336571891, 3584528711,
      113926993, 338241895, 666307205, 773529912, 1294757372, 1396182291,
      1695183700, 1986661051, 2177026350, 2456956037, 2730485921, 2820302411,
      3259730800, 3345764771, 3516065817, 3600352804, 4094571909, 275423344,
      430227734, 506948616, 659060556, 883997877, 958139571, 1322822218,
      1537002063, 1747873779, 1955562222, 2024104815, 2227730452, 2361852424,
      2428436474, 2756734187, 3204031479, 3329325298]"

type_synonym sha256_state =
  "32 word \<times> 32 word \<times> 32 word \<times> 32 word \<times> 32 word \<times> 32 word \<times> 32 word \<times> 32 word"

definition sha256_init :: sha256_state where
  "sha256_init =
     (1779033703, 3144134277, 1013904242, 2773480762,
      1359893119, 2600822924, 528734635, 1541459225)"

definition sha256_pad :: "byte list \<Rightarrow> byte list" where
  "sha256_pad m =
     m @ [0x80] @ replicate ((119 - length m mod 64) mod 64) 0
       @ bytes_of_be64 (of_nat (8 * length m))"

fun chunks :: "nat \<Rightarrow> 'a list \<Rightarrow> 'a list list" where
  "chunks n [] = []"
| "chunks n (x # xs) =
     (if n = 0 then [] else take n (x # xs) # chunks n (drop n (x # xs)))"

definition small_sigma0 :: "32 word \<Rightarrow> 32 word" where
  "small_sigma0 x = word_rotr 7 x XOR word_rotr 18 x XOR drop_bit 3 x"

definition small_sigma1 :: "32 word \<Rightarrow> 32 word" where
  "small_sigma1 x = word_rotr 17 x XOR word_rotr 19 x XOR drop_bit 10 x"

definition big_sigma0 :: "32 word \<Rightarrow> 32 word" where
  "big_sigma0 x = word_rotr 2 x XOR word_rotr 13 x XOR word_rotr 22 x"

definition big_sigma1 :: "32 word \<Rightarrow> 32 word" where
  "big_sigma1 x = word_rotr 6 x XOR word_rotr 11 x XOR word_rotr 25 x"

definition sha256_ch :: "32 word \<Rightarrow> 32 word \<Rightarrow> 32 word \<Rightarrow> 32 word" where
  "sha256_ch x y z = (x AND y) XOR (NOT x AND z)"

definition sha256_maj :: "32 word \<Rightarrow> 32 word \<Rightarrow> 32 word \<Rightarrow> 32 word" where
  "sha256_maj x y z = (x AND y) XOR (x AND z) XOR (y AND z)"

fun sha256_extend :: "nat \<Rightarrow> 32 word list \<Rightarrow> 32 word list" where
  "sha256_extend 0 w = w"
| "sha256_extend (Suc k) w =
     (let t = length w in
      sha256_extend k
        (w @ [small_sigma1 (w ! (t - 2)) + w ! (t - 7) + small_sigma0 (w ! (t - 15)) + w ! (t - 16)]))"

definition sha256_schedule :: "byte list \<Rightarrow> 32 word list" where
  "sha256_schedule block = sha256_extend 48 (map be32_of_bytes (chunks 4 block))"

fun sha256_round :: "sha256_state \<Rightarrow> 32 word \<times> 32 word \<Rightarrow> sha256_state" where
  "sha256_round (a, b, c, d, e, f, g, h) (k, w) =
     (let t1 = h + big_sigma1 e + sha256_ch e f g + k + w;
          t2 = big_sigma0 a + sha256_maj a b c
      in (t1 + t2, a, b, c, d + t1, e, f, g))"

fun sha256_add :: "sha256_state \<Rightarrow> sha256_state \<Rightarrow> sha256_state" where
  "sha256_add (a, b, c, d, e, f, g, h) (a', b', c', d', e', f', g', h') =
     (a + a', b + b', c + c', d + d', e + e', f + f', g + g', h + h')"

definition sha256_compress :: "sha256_state \<Rightarrow> byte list \<Rightarrow> sha256_state" where
  "sha256_compress st block =
     sha256_add st (foldl sha256_round st (zip sha256_K (sha256_schedule block)))"

fun sha256_output :: "sha256_state \<Rightarrow> byte list" where
  "sha256_output (a, b, c, d, e, f, g, h) =
     concat (map bytes_of_be32 [a, b, c, d, e, f, g, h])"

definition SHA256 :: "byte list \<Rightarrow> byte list" where
  "SHA256 m = sha256_output (foldl sha256_compress sha256_init (chunks 64 (sha256_pad m)))"

text \<open>
  A Diffie-Hellman key as held in an \<^verbatim>\<open>EVP_PKEY\<close>: the group (prime and generator)
  and the private and public values. \<^verbatim>\<open>BN_bn2bin\<close> writes a number as big-endian
  bytes without leading zeros; the shared secret is the peer's public value raised to
  the local private value, modulo the prime.
\<close>

record EVP_PKEY =
  dh_p :: nat
  dh_g :: nat
  dh_priv :: nat
  dh_pub :: nat

fun BN_bn2bin :: "nat \<Rightarrow> byte list" where
  "BN_bn2bin n = (if n = 0 then [] else BN_bn2bin (n div 256) @ [of_nat (n mod 256)])"

declare BN_bn2bin.simps [simp del]

definition DH_compute_key :: "EVP_PKEY \<Rightarrow> EVP_PKEY \<Rightarrow> byte list" where
  "DH_compute_key local peer = BN_bn2bin ((dh_pub peer ^ dh_priv local) mod dh_p local)"

definition OPENSSL_cleanse :: "nat \<Rightarrow> byte list \<Rightarrow> byte list" where
  "OPENSSL_cleanse len buf = replicate (min len (length buf)) 0 @ drop len buf"

text \<open>
  AES-256 (FIPS 197) on a block of 16 bytes in column order. The S-box is the table of
  FIPS 197, Figure 7, with one row for each value of the high four bits of the byte. The
  key expansion carries the index of the word it computes, as the loop of FIPS 197,
  Figure 11, does.
\<close>

definition xor_bytes :: "byte list \<Rightarrow> byte list \<Rightarrow> byte list" where
  "xor_bytes xs ys = map (\<lambda>(x, y). x XOR y) (zip xs ys)"

definition xtime :: "byte \<Rightarrow> byte" where
  "xtime b = push_bit 1 b XOR (if bit b 7 then 0x1b else 0)"

fun gf8_mult_aux :: "nat \<Rightarrow> byte \<Rightarrow> byte \<Rightarrow> byte" where
  "gf8_mult_aux 0 a b = 0"
| "gf8_mult_aux (Suc n) a b =
     (if bit b 0 then a else 0) XOR gf8_mult_aux n (xtime a) (drop_bit 1 b)"

definition gf8_mult :: "byte \<Rightarrow> byte \<Rightarrow> byte" where
  "gf8_mult a b = gf8_mult_aux 8 a b"

definition aes_sbox_table :: "byte list list" where
  "aes_sbox_table =
     [[99, 124, 119, 123, 242, 107, 111, 197, 48, 1, 103, 43, 254, 215, 171, 118],
      [202, 130, 201, 125, 250, 89, 71, 240, 173, 212, 162, 175, 156, 164, 114, 192],
      [183, 253, 147, 38, 54, 63, 247, 204, 52, 165, 229, 241, 113, 216, 49, 21],
      [4, 199, 35, 195, 24, 150, 5, 154, 7, 18, 128, 226, 235, 39, 178, 117],
      [9, 131, 44, 26, 27, 110, 90, 160, 82, 59, 214, 179, 41, 227, 47, 132],
      [83, 209, 0, 237, 32, 252, 177, 91, 106, 203, 190, 57, 74, 76, 88, 207],
      [208, 239, 170, 251, 67, 77, 51, 133, 69, 249, 2, 127, 80, 60, 159, 168],
      [81, 163, 64, 143, 146, 157, 56, 245, 188, 182, 218, 33, 16, 255, 243, 210],
      [205, 12, 19, 236, 95, 151, 68, 23, 196, 167, 126, 61, 100, 93, 25, 115],
      [96, 129, 79, 220, 34, 42, 144, 136, 70, 238, 184, 20, 222, 94, 11, 219],
      [224, 50, 58, 10, 73, 6, 36, 92, 194, 211, 172, 98, 145, 149, 228, 121],
      [231, 200, 55, 109, 141, 213, 78, 169, 108, 86, 244, 234, 101, 122, 174, 8],
      [186, 120, 37, 46, 28, 166, 180, 198, 232, 221, 116, 31, 75, 189, 139, 138],
      [112, 62, 181, 102, 72, 3, 246, 14, 97, 53, 87, 185, 134, 193, 29, 158],
      [225, 248, 152, 17, 105, 217, 142, 148, 155, 30, 135, 233, 206, 85, 40, 223],
      [140, 161, 137, 13, 191, 230, 66, 104, 65, 153, 45, 15, 176, 84, 187, 22]]"

definition aes_sbox :: "byte \<Rightarrow> byte" where
  "aes_sbox a = aes_sbox_table ! unat (drop_bit 4 a) ! unat (take_bit 4 a)"

definition sub_bytes :: "byte list \<Rightarrow> byte list" where
  "sub_bytes st = map aes_sbox st"

definition shift_rows :: "byte list \<Rightarrow> byte list" where
  "shift_rows st = map (\<lambda>i. st ! ((i mod 4) + 4 * ((i div 4 + i mod 4) mod 4))) [0 ..< 16]"

definition mix_column :: "byte list \<Rightarrow> byte list" where
  "mix_column c =
     (let a0 = c ! 0; a1 = c ! 1; a2 = c ! 2; a3 = c ! 3 in
      [gf8_mult 2 a0 XOR gf8_mult 3 a1 XOR a2 XOR a3,
       a0 XOR gf8_mult 2 a1 XOR gf8_mult 3 a2 XOR a3,
       a0 XOR a1 XOR gf8_mult 2 a2 XOR gf8_mult 3 a3,
       gf8_mult 3 a0 XOR a1 XOR a2 XOR gf8_mult 2 a3])"

definition mix_columns :: "byte list \<Rightarrow> byte list" where
  "mix_columns st = concat (map mix_column (chunks 4 st))"

definition rot_word :: "byte list \<Rightarrow> byte list" where
  "rot_word w = drop 1 w @ take 1 w"

definition rcon :: "nat \<Rightarrow> byte list" where
  "rcon j = [(xtime ^^ (j - 1)) 1, 0, 0, 0]"

fun aes256_expand :: "nat \<Rightarrow> nat \<Rightarrow> byte list list \<Rightarrow> byte list list" where
  "aes256_expand 0 i w = w"
| "aes256_expand (Suc k) i w =
     (let prev = w ! (i - 1);
          temp = (if i mod 8 = 0 then xor_bytes (sub_bytes (rot_word prev)) (rcon (i div 8))
                  else if i mod 8 = 4 then sub_bytes prev
                  else prev)
      in aes256_expand k (i + 1) (w @ [xor_bytes (w ! (i - 8)) temp]))"

definition aes256_round_keys :: "byte list \<Rightarrow> byte list list" where
  "aes256_round_keys key = map concat (chunks 4 (aes256_expand 52 8 (chunks 4 (take 32 key))))"

definition add_round_key :: "byte list \<Rightarrow> byte list \<Rightarrow> byte list" where
  "add_round_key st rk = map (\<lambda>i. st ! i XOR rk ! i) [0 ..< 16]"

definition aes_round :: "byte list \<Rightarrow> byte list \<Rightarrow> byte list" where
  "aes_round st rk = add_round_key (mix_columns (shift_rows (sub_bytes st))) rk"

definition AES256_encrypt :: "byte list \<Rightarrow> byte list \<Rightarrow> byte list" where
  "AES256_encrypt key block =
     (let rks = aes256_round_keys key;
          st = foldl aes_round (add_round_key block (rks ! 0)) (take 13 (drop 1 rks))
      in add_round_key (shift_rows (sub_bytes st)) (rks ! 14))"

text \<open>
  GCM (NIST SP 800-38D) with a 96-bit IV and no associated data, as the code uses it:
  the hash subkey is the encryption of the zero block, counter block 1 masks the tag and
  the data is encrypted in counter mode from counter block 2 on.
\<close>

definition block_of_bytes :: "byte list \<Rightarrow> 128 word" where
  "block_of_bytes bs =
     foldl (\<lambda>acc b. push_bit 8 acc OR ucast b) 0 (take 16 (bs @ replicate 16 0))"

definition bytes_of_block :: "128 word \<Rightarrow> byte list" where
  "bytes_of_block w = map (\<lambda>i. ucast (drop_bit (8 * (15 - i)) w)) [0 ..< 16]"

fun gf128_mult_aux :: "nat \<Rightarrow> 128 word \<Rightarrow> 128 word \<Rightarrow> 128 word \<Rightarrow> 128 word" where
  "gf128_mult_aux 0 x v z = z"
| "gf128_mult_aux (Suc n) x v z =
     gf128_mult_aux n (push_bit 1 x)
       (if bit v 0 then drop_bit 1 v XOR push_bit 120 0xE1 else drop_bit 1 v)
       (if bit x 127 then z XOR v else z)"

definition gf128_mult :: "128 word \<Rightarrow> 128 word \<Rightarrow> 128 word" where
  "gf128_mult x y = gf128_mult_aux 128 x y 0"

definition pad16 :: "byte list \<Rightarrow> byte list" where
  "pad16 bs = bs @ replicate ((16 - length bs mod 16) mod 16) 0"

definition GHASH :: "128 word \<Rightarrow> byte list \<Rightarrow> byte list \<Rightarrow> 128 word" where
  "GHASH h aad c =
     foldl (\<lambda>y x. gf128_mult (y XOR block_of_bytes x) h) 0
       (chunks 16 (pad16 aad @ pad16 c
                   @ bytes_of_be64 (of_nat (8 * length aad))
                   @ bytes_of_be64 (of_nat (8 * length c))))"

definition gcm_counter_block :: "byte list \<Rightarrow> nat \<Rightarrow> byte list" where
  "gcm_counter_block iv i = take 12 iv @ bytes_of_be32 (of_nat i)"

definition gcm_keystream :: "byte list \<Rightarrow> byte list \<Rightarrow> nat \<Rightarrow> byte list" where
  "gcm_keystream key iv n =
     take n (concat (map (\<lambda>j. AES256_encrypt key (gcm_counter_block iv (j + 2)))
                         [0 ..< (n + 15) div 16]))"

definition gcm_tag :: "byte list \<Rightarrow> byte list \<Rightarrow> byte list \<Rightarrow> byte list" where
  "gcm_tag key iv c =
     xor_bytes (AES256_encrypt key (gcm_counter_block iv 1))
       (bytes_of_block (GHASH (block_of_bytes (AES256_encrypt key (replicate 16 0))) [] c))"


text \<open>
  The cipher context behind \<^verbatim>\<open>EVP_CIPHER_CTX\<close> for \<^verbatim>\<open>EVP_aes_256_gcm\<close>: direction, key,
  IV, the ciphertext bytes that have passed through so far, and the tag (computed by the
  final step when encrypting, set by the caller when decrypting). Initialisation reads
  32 key bytes and 12 IV bytes. An update returns the bytes it writes to the output
  buffer; when decrypting these are written before any tag has been checked. The tag is
  compared only by \<^verbatim>\<open>EVP_DecryptFinal_ex\<close>, which writes nothing.
\<close>

record EVP_CIPHER_CTX =
  ctx_encrypting :: bool
  ctx_key :: "byte list"
  ctx_iv :: "byte list"
  ctx_processed :: "byte list"
  ctx_tag :: "byte list option"

definition EVP_CipherInit :: "bool \<Rightarrow> byte list \<Rightarrow> byte list \<Rightarrow> EVP_CIPHER_CTX" where
  "EVP_CipherInit enc key iv =
     \<lparr>ctx_encrypting = enc, ctx_key = take 32 key, ctx_iv = take 12 iv,
      ctx_processed = [], ctx_tag = None\<rparr>"

definition gcm_crypt :: "EVP_CIPHER_CTX \<Rightarrow> byte list \<Rightarrow> byte list" where
  "gcm_crypt ctx input =
     xor_bytes input
       (drop (length (ctx_processed ctx))
          (gcm_keystream (ctx_key ctx) (ctx_iv ctx) (length (ctx_processed ctx) + length input)))"



definition EVP_DecryptUpdate :: "EVP_CIPHER_CTX \<Rightarrow> byte list \<Rightarrow> byte list \<times> EVP_CIPHER_CTX" where
  "EVP_DecryptUpdate ctx input =
     (gcm_crypt ctx input, ctx\<lparr>ctx_processed := ctx_processed ctx @ input\<rparr>)"

definition EVP_CTRL_GCM_SET_TAG :: "EVP_CIPHER_CTX \<Rightarrow> byte list \<Rightarrow> EVP_CIPHER_CTX" where
  "EVP_CTRL_GCM_SET_TAG ctx tag = ctx\<lparr>ctx_tag := Some (take 16 tag)\<rparr>"

definition EVP_DecryptFinal_ex :: "EVP_CIPHER_CTX \<Rightarrow> bool" where
  "EVP_DecryptFinal_ex ctx =
     (ctx_tag ctx = Some (gcm_tag (ctx_key ctx) (ctx_iv ctx) (ctx_processed ctx)))"

section \<open>Session management (src/session.c)\<close>

subsection \<open>authenticate\_user\<close>

text \<open>
  A C string is modelled by the characters before its terminator. \<^verbatim>\<open>strcmp\<close> compares
  two strings byte by byte as unsigned characters; only the sign of its result is
  specified by C, so the model returns -1, 0 or 1.
\<close>

fun strcmp :: "string \<Rightarrow> string \<Rightarrow> int" where
  "strcmp [] [] = 0"
| "strcmp [] (y # ys) = -1"
| "strcmp (x # xs) [] = 1"
| "strcmp (x # xs) (y # ys) =
     (if x = y then strcmp xs ys
      else if (of_char x :: nat) < of_char y then -1 else 1)"

definition quoted :: "string \<Rightarrow> string" where
  "quoted s = [CHR 0x27] @ s @ [CHR 0x27]"

definition authenticate_user :: "string \<Rightarrow> string \<Rightarrow> SecureCommError \<times> event list" where
  "authenticate_user username password =
     (let valid_username = ''user''; valid_password = ''pass'' in
      if strcmp username valid_username = 0 \<and> strcmp password valid_password = 0
      then (SECURE_COMM_SUCCESS, [])
      else (SECURE_COMM_ERR_SESSION,
            [Ev_stderr (''authenticate_user: Invalid credentials for user '' @ quoted username)]))"

subsection \<open>The session object and the outcomes of library calls\<close>

text \<open>
  \<^verbatim>\<open>UserSession\<close>: a pointer field is \<open>None\<close> when it is \<^verbatim>\<open>NULL\<close> and \<open>Some v\<close> when it
  points to an object holding \<open>v\<close>.
\<close>

record UserSession =
  username :: "string option"
  session_key :: "byte list option"
  session_key_len :: nat
  dh_keypair :: "EVP_PKEY option"
  peer_dh_public :: "EVP_PKEY option"

text \<open>
  Whether an allocation or a library call succeeds, and what the random generators
  return, is not decided by the program. Each function takes these outcomes as an
  argument, with one field per call site in source order.
\<close>

record keygen_env =
  pctx_new_ok :: bool
  paramgen_init_ok :: bool
  set_prime_len_ok :: bool
  set_generator_ok :: bool
  paramgen_result :: "(nat \<times> nat) option"
  kctx_new_ok :: bool
  keygen_init_ok :: bool
  keygen_result :: "(nat \<times> nat) option"

record derive_env =
  pkey_dup_ok :: bool
  derive_ctx_new_ok :: bool
  derive_init_ok :: bool
  derive_set_peer_ok :: bool
  derive_size_ok :: bool
  malloc_secret_ok :: bool
  derive_ok :: bool
  malloc_key_ok :: bool

record session_env =
  malloc_session_ok :: bool
  strdup_ok :: bool
  keygen_outcomes :: keygen_env
  derive_outcomes :: derive_env

definition SHA256_DIGEST_LENGTH :: nat where
  "SHA256_DIGEST_LENGTH = 32"

subsection \<open>generate\_dh\_keypair\<close>

text \<open>
  The argument \<^verbatim>\<open>EVP_PKEY** keypair\<close> is \<open>None\<close> for a null pointer and otherwise
  \<open>Some c\<close>, with \<open>c\<close> the pointer stored in the cell it points to. The result gives the
  return code, the argument with the cell as the function leaves it, and the events.
\<close>

definition generate_dh_keypair ::
  "keygen_env \<Rightarrow> EVP_PKEY option option \<Rightarrow> SecureCommError \<times> EVP_PKEY option option \<times> event list"
where
  "generate_dh_keypair env keypair =
     (if keypair = None then
        (SECURE_COMM_ERR_SESSION, keypair, [Ev_stderr ''generate_dh_keypair: Invalid argument''])
      else if \<not> pctx_new_ok env then
        (SECURE_COMM_ERR_SESSION, keypair,
         [Ev_stderr ''generate_dh_keypair: EVP_PKEY_CTX_new_id failed''])
      else if \<not> paramgen_init_ok env then
        (SECURE_COMM_ERR_SESSION, keypair,
         [Ev_alloc R_pkey_ctx,
          Ev_stderr ''generate_dh_keypair: EVP_PKEY_paramgen_init failed'',
          Ev_free R_pkey_ctx])
      else if \<not> set_prime_len_ok env \<or> \<not> set_generator_ok env then
        (SECURE_COMM_ERR_SESSION, keypair,
         [Ev_alloc R_pkey_ctx,
          Ev_stderr ''generate_dh_keypair: Setting DH parameters failed'',
          Ev_free R_pkey_ctx])
      else
        (case paramgen_result env of
           None \<Rightarrow>
             (SECURE_COMM_ERR_SESSION, keypair,
              [Ev_alloc R_pkey_ctx, Ev_call ''EVP_PKEY_paramgen'',
               Ev_stderr ''generate_dh_keypair: EVP_PKEY_paramgen failed'',
               Ev_free R_pkey_ctx])
         | Some (p, g) \<Rightarrow>
             if \<not> kctx_new_ok env then
               (SECURE_COMM_ERR_SESSION, keypair,
                [Ev_alloc R_pkey_ctx, Ev_call ''EVP_PKEY_paramgen'', Ev_alloc R_dh_params,
                 Ev_stderr ''generate_dh_keypair: EVP_PKEY_CTX_new failed'',
                 Ev_free R_dh_params, Ev_free R_pkey_ctx])
             else if \<not> keygen_init_ok env then
               (SECURE_COMM_ERR_SESSION, keypair,
                [Ev_alloc R_pkey_ctx, Ev_call ''EVP_PKEY_paramgen'', Ev_alloc R_dh_params,
                 Ev_alloc R_pkey_ctx,
                 Ev_stderr ''generate_dh_keypair: EVP_PKEY_keygen_init failed'',
                 Ev_free R_dh_params, Ev_free R_pkey_ctx, Ev_free R_pkey_ctx])
             else
               (case keygen_result env of
                  None \<Rightarrow>
                    (SECURE_COMM_ERR_SESSION, keypair,
                     [Ev_alloc R_pkey_ctx, Ev_call ''EVP_PKEY_paramgen'', Ev_alloc R_dh_params,
                      Ev_alloc R_pkey_ctx, Ev_call ''EVP_PKEY_keygen'',
                      Ev_stderr ''generate_dh_keypair: EVP_PKEY_keygen failed'',
                      Ev_free R_dh_params, Ev_free R_pkey_ctx, Ev_free R_pkey_ctx])
                | Some (priv, pub) \<Rightarrow>
                    (SECURE_COMM_SUCCESS,
                     Some (Some \<lparr>dh_p = p, dh_g = g, dh_priv = priv, dh_pub = pub\<rparr>),
                     [Ev_alloc R_pkey_ctx, Ev_call ''EVP_PKEY_paramgen'', Ev_alloc R_dh_params,
                      Ev_alloc R_pkey_ctx, Ev_call ''EVP_PKEY_keygen'', Ev_alloc R_dh_keypair,
                      Ev_free R_dh_params, Ev_free R_pkey_ctx, Ev_free R_pkey_ctx]))))"

subsection \<open>derive\_shared\_secret\<close>

text \<open>
  The peer's public key is not an input: the function stores a duplicate of the local
  key pair in \<^verbatim>\<open>session->peer_dh_public\<close> and derives against it. The secret buffer is
  released right after hashing, with the secret still in it. The buffer has the length
  that the size query reports; the event of its release records the \<^verbatim>\<open>secret_len\<close>
  bytes that \<^verbatim>\<open>EVP_PKEY_derive\<close> wrote into it, which are the bytes hashed, and not
  what the buffer holds past them.
\<close>

definition derive_shared_secret ::
  "derive_env \<Rightarrow> UserSession option \<Rightarrow> SecureCommError \<times> UserSession option \<times> event list"
where
  "derive_shared_secret env session =
     (case session of
        None \<Rightarrow>
          (SECURE_COMM_ERR_SESSION, session,
           [Ev_stderr ''derive_shared_secret: Invalid session or DH keypair''])
      | Some s \<Rightarrow>
     (case dh_keypair s of
        None \<Rightarrow>
          (SECURE_COMM_ERR_SESSION, session,
           [Ev_stderr ''derive_shared_secret: Invalid session or DH keypair''])
      | Some kp \<Rightarrow>
          if \<not> pkey_dup_ok env then
            (SECURE_COMM_ERR_SESSION, Some (s\<lparr>peer_dh_public := None\<rparr>),
             [Ev_stderr ''derive_shared_secret: EVP_PKEY_dup failed''])
          else
            let s1 = s\<lparr>peer_dh_public := Some kp\<rparr>;
                secret = DH_compute_key kp kp;
                hash = SHA256 secret
            in
            if \<not> derive_ctx_new_ok env then
              (SECURE_COMM_ERR_SESSION, Some s1,
               [Ev_alloc R_peer_key,
                Ev_stderr ''derive_shared_secret: EVP_PKEY_CTX_new failed''])
            else if \<not> derive_init_ok env then
              (SECURE_COMM_ERR_SESSION, Some s1,
               [Ev_alloc R_peer_key, Ev_alloc R_pkey_ctx,
                Ev_stderr ''derive_shared_secret: EVP_PKEY_derive_init failed'',
                Ev_free R_pkey_ctx])
            else if \<not> derive_set_peer_ok env then
              (SECURE_COMM_ERR_SESSION, Some s1,
               [Ev_alloc R_peer_key, Ev_alloc R_pkey_ctx,
                Ev_stderr ''derive_shared_secret: EVP_PKEY_derive_set_peer failed'',
                Ev_free R_pkey_ctx])
            else if \<not> derive_size_ok env then
              (SECURE_COMM_ERR_SESSION, Some s1,
               [Ev_alloc R_peer_key, Ev_alloc R_pkey_ctx,
                Ev_stderr ''derive_shared_secret: EVP_PKEY_derive (size determination) failed'',
                Ev_free R_pkey_ctx])
            else if \<not> malloc_secret_ok env then
              (SECURE_COMM_ERR_MEMORY, Some s1,
               [Ev_alloc R_peer_key, Ev_alloc R_pkey_ctx,
                Ev_stderr ''derive_shared_secret: Failed to allocate memory for shared secret'',
                Ev_free R_pkey_ctx])
            else if \<not> derive_ok env then
              (SECURE_COMM_ERR_SESSION, Some s1,
               [Ev_alloc R_peer_key, Ev_alloc R_pkey_ctx, Ev_alloc R_secret,
                Ev_call ''EVP_PKEY_derive'',
                Ev_stderr ''derive_shared_secret: EVP_PKEY_derive failed'',
                Ev_free R_secret, Ev_free R_pkey_ctx])
            else if \<not> malloc_key_ok env then
              (SECURE_COMM_ERR_MEMORY,
               Some (s1\<lparr>session_key_len := SHA256_DIGEST_LENGTH, session_key := None\<rparr>),
               [Ev_alloc R_peer_key, Ev_alloc R_pkey_ctx, Ev_alloc R_secret,
                Ev_call ''EVP_PKEY_derive'', Ev_free R_pkey_ctx,
                Ev_call ''SHA256'', Ev_free_buf R_secret secret,
                Ev_stderr ''derive_shared_secret: Failed to allocate memory for session key''])
            else
              (SECURE_COMM_SUCCESS,
               Some (s1\<lparr>session_key_len := SHA256_DIGEST_LENGTH,
                        session_key := Some (take SHA256_DIGEST_LENGTH hash)\<rparr>),
               [Ev_alloc R_peer_key, Ev_alloc R_pkey_ctx, Ev_alloc R_secret,
                Ev_call ''EVP_PKEY_derive'', Ev_free R_pkey_ctx,
                Ev_call ''SHA256'', Ev_free_buf R_secret secret,
                Ev_alloc R_session_key])))"

subsection \<open>initialize\_session\<close>

text \<open>
  \<^verbatim>\<open>UserSession** session\<close> is modelled like \<^verbatim>\<open>keypair\<close> above: \<open>None\<close> for a null
  pointer, \<open>Some c\<close> for a pointer to a cell that holds the session pointer \<open>c\<close>. The new
  session starts zeroed by \<^verbatim>\<open>memset\<close>.
\<close>

definition zeroed_session :: UserSession where
  "zeroed_session =
     \<lparr>username = None, session_key = None, session_key_len = 0,
      dh_keypair = None, peer_dh_public = None\<rparr>"

definition initialize_session ::
  "session_env \<Rightarrow> string option \<Rightarrow> string option \<Rightarrow> UserSession option option
     \<Rightarrow> SecureCommError \<times> UserSession option option \<times> event list"
where
  "initialize_session env username_arg password_arg session =
     (case (username_arg, password_arg, session) of
        (Some uname, Some password, Some cell) \<Rightarrow>
          if \<not> malloc_session_ok env then
            (SECURE_COMM_ERR_MEMORY, session,
             [Ev_stderr ''initialize_session: Failed to allocate memory for session''])
          else
            let new_session = zeroed_session;
                e1 = [Ev_alloc R_session];
                (auth_ret, e_auth) = authenticate_user uname password
            in
            if auth_ret \<noteq> SECURE_COMM_SUCCESS then
              (auth_ret, session,
               e1 @ e_auth
                  @ [Ev_stderr (''initialize_session: User authentication failed for ''
                                 @ quoted uname),
                     Ev_free R_session])
            else if \<not> strdup_ok env then
              (SECURE_COMM_ERR_MEMORY, session,
               e1 @ e_auth
                  @ [Ev_stderr ''initialize_session: Failed to allocate memory for username'',
                     Ev_free R_session])
            else
              let new_session = new_session\<lparr>username := Some uname\<rparr>;
                  e2 = e1 @ e_auth @ [Ev_alloc R_username];
                  (dh_ret, kp_cell, e_dh) =
                     generate_dh_keypair (keygen_outcomes env) (Some (dh_keypair new_session))
              in
              if dh_ret \<noteq> SECURE_COMM_SUCCESS then
                (dh_ret, session,
                 e2 @ e_dh
                    @ [Ev_stderr ''initialize_session: Failed to generate DH key pair'',
                       Ev_free R_username, Ev_free R_session])
              else
                let new_session =
                      new_session\<lparr>dh_keypair := (case kp_cell of Some c \<Rightarrow> c | None \<Rightarrow> None)\<rparr>;
                    (secret_ret, derived, e_derive) =
                       derive_shared_secret (derive_outcomes env) (Some new_session)
                in
                if secret_ret \<noteq> SECURE_COMM_SUCCESS then
                  (secret_ret, session,
                   e2 @ e_dh @ e_derive
                      @ [Ev_stderr ''initialize_session: Failed to derive shared secret'',
                         Ev_free R_dh_keypair, Ev_free R_username, Ev_free R_session])
                else
                  (SECURE_COMM_SUCCESS, Some derived,
                   e2 @ e_dh @ e_derive
                      @ [Ev_stdout (''initialize_session: Session initialized for user ''
                                     @ quoted uname)])
      | _ \<Rightarrow>
          (SECURE_COMM_ERR_SESSION, session,
           [Ev_stderr ''initialize_session: Invalid arguments'']))"

subsection \<open>terminate\_session\<close>

text \<open>
  The function returns nothing; the model gives the events. The key buffer is wiped over
  \<^verbatim>\<open>session_key_len\<close> bytes and then released.
\<close>

definition terminate_session :: "UserSession option \<Rightarrow> event list" where
  "terminate_session session =
     (case session of
        None \<Rightarrow> []
      | Some s \<Rightarrow>
          (case session_key s of
             None \<Rightarrow> []
           | Some k \<Rightarrow>
               [Ev_call ''OPENSSL_cleanse'',
                Ev_free_buf R_session_key (OPENSSL_cleanse (session_key_len s) k)])
          @ (if dh_keypair s \<noteq> None then [Ev_free R_dh_keypair] else [])
          @ (if peer_dh_public s \<noteq> None then [Ev_free R_peer_key] else [])
          @ (if username s \<noteq> None then [Ev_free R_username] else [])
          @ [Ev_free R_session,
             Ev_stdout ''terminate_session: Session terminated successfully.''])"

section \<open>Authenticated encryption (src/encryption.c)\<close>

text \<open>
  A pointer argument is \<open>None\<close> when null. An input pointer with its length (plaintext,
  ciphertext) is the list of bytes it designates; a key, IV or tag pointer is the
  contents of the array behind it; an output pointer is the contents of the caller's
  buffer or cell, returned as the function leaves it. Writing \<open>bs\<close> into a buffer at
  offset \<open>off\<close> replaces the bytes there and leaves the rest of the buffer as it was.
  The callers' buffers are large enough for what is written into them; a write past the
  end of a buffer is not represented.
\<close>

definition store_at :: "nat \<Rightarrow> byte list \<Rightarrow> byte list \<Rightarrow> byte list" where
  "store_at off bs buf = take off buf @ bs @ drop (off + length bs) buf"


record decrypt_env =
  dec_ctx_new_ok :: bool
  dec_init_ok :: bool
  dec_update_ok :: bool
  set_tag_ok :: bool
  dec_final_ok :: bool


subsection \<open>encrypt\_data\<close>


subsection \<open>decrypt\_data\<close>

text \<open>
  The result is the return code, the plaintext buffer and the length cell as the call
  leaves them, and the events. The length cell is written only after the tag check.
\<close>

definition decrypt_data ::
  "decrypt_env \<Rightarrow> byte list option \<Rightarrow> byte list option \<Rightarrow> byte list option
     \<Rightarrow> byte list option \<Rightarrow> int option \<Rightarrow> byte list option
     \<Rightarrow> SecureCommError \<times> byte list option \<times> int option \<times> event list"
where
  "decrypt_data env ciphertext key iv plaintext plaintext_len tag =
     (case (ciphertext, key, iv, plaintext, plaintext_len, tag) of
        (Some ct, Some k, Some iv_buf, Some pt_buf, Some len_cell, Some tag_buf) \<Rightarrow>
          if \<not> dec_ctx_new_ok env then
            (SECURE_COMM_ERR_DECRYPT, plaintext, plaintext_len,
             [Ev_stderr ''decrypt_data: EVP_CIPHER_CTX_new failed''])
          else if \<not> dec_init_ok env then
            (SECURE_COMM_ERR_DECRYPT, plaintext, plaintext_len,
             [Ev_alloc R_cipher_ctx, Ev_stderr ''decrypt_data: EVP_DecryptInit_ex failed'',
              Ev_free R_cipher_ctx])
          else
            let ctx = EVP_CipherInit False k iv_buf in
            if \<not> dec_update_ok env then
              (SECURE_COMM_ERR_DECRYPT, plaintext, plaintext_len,
               [Ev_alloc R_cipher_ctx, Ev_stderr ''decrypt_data: EVP_DecryptUpdate failed'',
                Ev_free R_cipher_ctx])
            else
              let (out1, ctx1) = EVP_DecryptUpdate ctx ct;
                  pt1 = store_at 0 out1 pt_buf;
                  total_len = int (length out1)
              in
              if \<not> set_tag_ok env then
                (SECURE_COMM_ERR_DECRYPT, Some pt1, plaintext_len,
                 [Ev_alloc R_cipher_ctx,
                  Ev_stderr ''decrypt_data: Failed to set GCM authentication tag'',
                  Ev_free R_cipher_ctx])
              else
                let ctx2 = EVP_CTRL_GCM_SET_TAG ctx1 tag_buf in
                if \<not> (dec_final_ok env \<and> EVP_DecryptFinal_ex ctx2) then
                  (SECURE_COMM_ERR_DECRYPT, Some pt1, plaintext_len,
                   [Ev_alloc R_cipher_ctx,
                    Ev_stderr (''decrypt_data: EVP_DecryptFinal_ex failed. ''
                               @ ''Possibly wrong key, IV, or corrupted data.''),
                    Ev_free R_cipher_ctx])
                else
                  (SECURE_COMM_SUCCESS, Some pt1, Some total_len,
                   [Ev_alloc R_cipher_ctx, Ev_free R_cipher_ctx])
      | _ \<Rightarrow>
          (SECURE_COMM_ERR_DECRYPT, plaintext, plaintext_len,
           [Ev_stderr ''decrypt_data: Invalid arguments'']))"

section \<open>Inbound flow (receiver\_thread\_func in client.c and server.c)\<close>

text \<open>
  The two receiver threads have the same body and differ in their messages, so one
  definition takes the side it runs on; the server's messages name the peer. One call of
  \<^verbatim>\<open>recv\<close> yields the bytes read (none when the peer has closed) or fails. A loop
  iteration also gets the outcomes of the library calls inside \<^verbatim>\<open>decrypt_data\<close> and the
  indeterminate initial contents of the local \<^verbatim>\<open>decrypted_msg\<close> array.
\<close>

definition BUFFER_SIZE :: nat where "BUFFER_SIZE = 4096"
definition IV_SIZE :: nat where "IV_SIZE = 12"
definition TAG_SIZE :: nat where "TAG_SIZE = 16"

datatype role = Client | Server string

datatype recv_result = Recv_bytes "byte list" | Recv_failed string

record frame_input =
  recv_outcome :: recv_result
  decrypt_outcomes :: decrypt_env
  stack_garbage :: "byte list"

datatype flow_state = WaitingForFrame | Closed

text \<open>The decimal digits of a number, most significant first, for \<^verbatim>\<open>%d\<close>.\<close>

fun decimal_digits :: "nat \<Rightarrow> nat list" where
  "decimal_digits n = (if n div 10 = 0 then [] else decimal_digits (n div 10)) @ [n mod 10]"

declare decimal_digits.simps [simp del]

definition string_of_int :: "int \<Rightarrow> string" where
  "string_of_int i =
     (if i < 0 then ''-'' else []) @ map (\<lambda>d. char_of (d + 48)) (decimal_digits (nat \<bar>i\<bar>))"

definition c_string :: "byte list \<Rightarrow> string" where
  "c_string bs = map (\<lambda>b. char_of (unat b)) (takeWhile (\<lambda>b. b \<noteq> 0) bs)"

text \<open>One iteration of the loop: the events, and whether the loop goes on.\<close>

definition receiver_thread_func_body :: "role \<Rightarrow> byte list \<Rightarrow> frame_input \<Rightarrow> event list \<times> bool" where
  "receiver_thread_func_body side skey inp =
     (case recv_outcome inp of
        Recv_failed err \<Rightarrow>
          ([case side of
              Client \<Rightarrow> Ev_log LOG_LEVEL_ERROR (''Failed to receive data: '' @ err)
            | Server peer \<Rightarrow> Ev_log LOG_LEVEL_WARN (''Recv failed from '' @ peer @ '': '' @ err)],
           False)
      | Recv_bytes received \<Rightarrow>
          let buffer = take BUFFER_SIZE received;
              bytes_received = length buffer
          in
          if bytes_received = 0 then
            ([case side of
                Client \<Rightarrow> Ev_log LOG_LEVEL_WARN ''Server closed the connection''
              | Server peer \<Rightarrow> Ev_log LOG_LEVEL_INFO (''Client '' @ peer @ '' disconnected'')],
             False)
          else if bytes_received < IV_SIZE + TAG_SIZE then
            ([Ev_log LOG_LEVEL_ERROR ''Received data is too short to contain IV and tag''], True)
          else
            let iv = take IV_SIZE buffer;
                tag = take TAG_SIZE (drop IV_SIZE buffer);
                ciphertext = drop (IV_SIZE + TAG_SIZE) buffer;
                (decrypt_ret, decrypted_msg, decrypted_len, ev) =
                   decrypt_data (decrypt_outcomes inp) (Some ciphertext) (Some skey)
                     (Some iv) (Some (stack_garbage inp)) (Some 0) (Some tag)
            in
            if decrypt_ret \<noteq> SECURE_COMM_SUCCESS then
              (Ev_call ''decrypt_data'' # ev
                 @ [case side of
                      Client \<Rightarrow>
                        Ev_log LOG_LEVEL_ERROR
                          (''Failed to decrypt message. Error code: ''
                           @ string_of_int (error_code decrypt_ret))
                    | Server peer \<Rightarrow>
                        Ev_log LOG_LEVEL_ERROR
                          (''Failed to decrypt message from '' @ peer @ ''. Error code: ''
                           @ string_of_int (error_code decrypt_ret))],
               True)
            else
              let text = c_string (take (nat (case decrypted_len of Some n \<Rightarrow> n | None \<Rightarrow> 0))
                                        (case decrypted_msg of Some m \<Rightarrow> m | None \<Rightarrow> []))
              in
              (Ev_call ''decrypt_data'' # ev
                 @ (case side of
                      Client \<Rightarrow> [Ev_stdout (''Server: '' @ text), Ev_stdout ''You: '']
                    | Server peer \<Rightarrow>
                        [Ev_stdout (''Client '' @ peer @ '': '' @ text),
                         Ev_stdout (''To client '' @ peer @ '': '')]),
               True))"

text \<open>
  The loop over the successive outcomes of \<^verbatim>\<open>recv\<close>. It ends \<open>Closed\<close> when an
  iteration breaks out of it, and is still waiting for a frame when the outcomes given are
  used up.
\<close>

fun receiver_thread_func :: "role \<Rightarrow> byte list \<Rightarrow> frame_input list \<Rightarrow> event list \<times> flow_state" where
  "receiver_thread_func side skey [] = ([], WaitingForFrame)"
| "receiver_thread_func side skey (inp # rest) =
     (case receiver_thread_func_body side skey inp of
        (ev, continue) \<Rightarrow>
          if continue then
            (case receiver_thread_func side skey rest of
               (ev', st) \<Rightarrow> (ev @ ev', st))
          else (ev, Closed))"

section \<open>Observations on event lists and sample inputs\<close>

text \<open>
  What a run obtained from the heap, what it gave back, which key-material calls it made,
  and the contents of every session-key buffer at the moment it was released.
\<close>

definition allocated :: "event list \<Rightarrow> resource list" where
  "allocated ev = concat (map (\<lambda>e. case e of Ev_alloc r \<Rightarrow> [r] | _ \<Rightarrow> []) ev)"

definition released :: "event list \<Rightarrow> resource list" where
  "released ev =
     concat (map (\<lambda>e. case e of Ev_free r \<Rightarrow> [r] | Ev_free_buf r bs \<Rightarrow> [r] | _ \<Rightarrow> []) ev)"

definition library_calls :: "event list \<Rightarrow> string list" where
  "library_calls ev = concat (map (\<lambda>e. case e of Ev_call f \<Rightarrow> [f] | _ \<Rightarrow> []) ev)"

definition freed_key_bytes :: "event list \<Rightarrow> byte list list" where
  "freed_key_bytes ev =
     concat (map (\<lambda>e. case e of Ev_free_buf r bs \<Rightarrow> (if r = R_session_key then [bs] else []) | _ \<Rightarrow> []) ev)"

text \<open>
  Sample inputs: a key pair in the 2048-bit group of RFC 3526 with generator 2, a second
  public value in the same group (a key that carries only a public value leaves
  \<open>dh_priv\<close> at 0), and outcome records in which every call succeeds.
\<close>

definition group14_prime :: nat where
  "group14_prime = 32317006071311007300338913926423828248817941241140239112842009751400741706634354222619689417363569347117901737909704191754605873209195028853758986185622153212175412514901774520270235796078236248884246189477587641105928646099411723245426622522193230540919037680524235519125679715870117001058055877651038861847280257976054903569732561526167081339361799541336476559160368317896729073178384589680639671900977202194168647225871031411336429319536193471636533209717077448227988588565369208645296636077250268955505928362751121174096972998068410554359584866583291642136218231078990999448652468262416972035911852507045361090559"

definition sample_keypair :: EVP_PKEY where
  "sample_keypair =
     \<lparr>dh_p = group14_prime, dh_g = 2,
      dh_priv = 84973796548171161289340197272933986467146232741780282711895486085056387757650,
      dh_pub = 13303295425665089863229034252164553297895998112924652318283421337965484151888820497326356554042648405918608484132222689385235540907345733911441239171131015662652472511375051750988319138392330790514086276885922186571045536560874657270344759470539459116788826733283675361912965656074110940365110282670367693643381415620803171918924924172824158117634788571757196471695619335993880392157884960947793523760949513401785031166075674919840107298506747317045824873347188526527675741482339972270271081519888577595821669562220069404538573276724882540922765513229613539029300002037423050239061690070700172026707956280836069269851\<rparr>"

definition sample_peer_public :: EVP_PKEY where
  "sample_peer_public =
     \<lparr>dh_p = group14_prime, dh_g = 2, dh_priv = 0,
      dh_pub = 14400591753137235887122651331957709030556476368803140265678392879875780629655266540366024827321024066719556204654996290627464563843732257924239928470920472547583950275125999772097542374661127181458012169908553669894365551465056227400206272305483307593216233672532461217349254681439084569758225034891386180623912057090434149422303067376979063543890464736519649864557477589312236404364942262352658626789536941286279818260555421641800053393482633792599156364077839507952818666129312919436404854994524439391302613252719716713798676280210475530522378262585606745959759142211470371342443172560722518208866125224034008903793\<rparr>"

definition all_ok_derive_env :: derive_env where
  "all_ok_derive_env =
     \<lparr>pkey_dup_ok = True, derive_ctx_new_ok = True, derive_init_ok = True,
      derive_set_peer_ok = True, derive_size_ok = True, malloc_secret_ok = True,
      derive_ok = True, malloc_key_ok = True\<rparr>"

definition all_ok_keygen_env :: keygen_env where
  "all_ok_keygen_env =
     \<lparr>pctx_new_ok = True, paramgen_init_ok = True, set_prime_len_ok = True,
      set_generator_ok = True, paramgen_result = Some (group14_prime, 2),
      kctx_new_ok = True, keygen_init_ok = True,
      keygen_result = Some (dh_priv sample_keypair, dh_pub sample_keypair)\<rparr>"

definition all_ok_session_env :: session_env where
  "all_ok_session_env =
     \<lparr>malloc_session_ok = True, strdup_ok = True,
      keygen_outcomes = all_ok_keygen_env, derive_outcomes = all_ok_derive_env\<rparr>"

definition session_without_peer :: UserSession where
  "session_without_peer =
     zeroed_session\<lparr>username := Some ''user'', dh_keypair := Some sample_keypair\<rparr>"

definition session_with_peer :: UserSession where
  "session_with_peer = session_without_peer\<lparr>peer_dh_public := Some sample_peer_public\<rparr>"

definition derived_key :: "SecureCommError \<times> UserSession option \<times> event list \<Rightarrow> byte list option" where
  "derived_key r = (case fst (snd r) of None \<Rightarrow> None | Some s \<Rightarrow> session_key s)"

text \<open>
  Sample inputs for the cipher: the session key that \<^verbatim>\<open>client.c\<close> and \<^verbatim>\<open>server.c\<close>
  hard-code, the message "hello", a nonce, and the ciphertext and tag that GCM gives for
  them; outcome records in which every library call succeeds. \<open>sealed\<close> is the
  ciphertext of a plaintext under a key and nonce, \<open>flip_frame_bit\<close> flips one bit of a
  byte string, \<open>console_output\<close> collects what a run printed to the console, and
  \<open>rejected_frame\<close> says that a received frame is too short or fails to decrypt.
\<close>

definition all_ok_decrypt_env :: decrypt_env where
  "all_ok_decrypt_env =
     \<lparr>dec_ctx_new_ok = True, dec_init_ok = True, dec_update_ok = True,
      set_tag_ok = True, dec_final_ok = True\<rparr>"


definition predefined_session_key :: "byte list" where
  "predefined_session_key =
     [0x00, 0x01, 0x02, 0x03, 0x04, 0x05, 0x06, 0x07, 0x08, 0x09, 0x0A, 0x0B, 0x0C, 0x0D,
      0x0E, 0x0F, 0x10, 0x11, 0x12, 0x13, 0x14, 0x15, 0x16, 0x17, 0x18, 0x19, 0x1A, 0x1B,
      0x1C, 0x1D, 0x1E, 0x1F]"

definition sample_plaintext :: "byte list" where
  "sample_plaintext = [0x68, 0x65, 0x6C, 0x6C, 0x6F]"

definition sample_iv :: "byte list" where
  "sample_iv = [160, 161, 162, 163, 164, 165, 166, 167, 168, 169, 170, 171]"

definition sample_ciphertext :: "byte list" where
  "sample_ciphertext =
     xor_bytes sample_plaintext (gcm_keystream predefined_session_key sample_iv 5)"

definition sample_tag :: "byte list" where
  "sample_tag = gcm_tag predefined_session_key sample_iv sample_ciphertext"


definition console_output :: "event list \<Rightarrow> string list" where
  "console_output ev = concat (map (\<lambda>e. case e of Ev_stdout l \<Rightarrow> [l] | _ \<Rightarrow> []) ev)"

definition rejected_frame :: "byte list \<Rightarrow> frame_input \<Rightarrow> bool" where
  "rejected_frame key inp =
     (case recv_outcome inp of
        Recv_failed err \<Rightarrow> False
      | Recv_bytes received \<Rightarrow>
          let buffer = take BUFFER_SIZE received in
          buffer \<noteq> []
          \<and> (length buffer < IV_SIZE + TAG_SIZE
             \<or> fst (decrypt_data (decrypt_outcomes inp)
                      (Some (drop (IV_SIZE + TAG_SIZE) buffer)) (Some key)
                      (Some (take IV_SIZE buffer)) (Some (stack_garbage inp)) (Some 0)
                      (Some (take TAG_SIZE (drop IV_SIZE buffer))))
                 \<noteq> SECURE_COMM_SUCCESS))"

definition short_frame_input :: frame_input where
  "short_frame_input =
     \<lparr>recv_outcome = Recv_bytes [1, 2, 3], decrypt_outcomes = all_ok_decrypt_env,
      stack_garbage = []\<rparr>"


section \<open>Notions for reasoning about GHASH\<close>

text \<open>
  The field GF(2^128) in the bit order of GCM: bit 127 of a block is the coefficient of 1,
  bit 126 the coefficient of x. \<^verbatim>\<open>gf128_mulx\<close> is the multiplication by x that one step of
  \<^verbatim>\<open>gf128_mult_aux\<close> applies to its second operand, \<^verbatim>\<open>unit_bit n\<close> is the block with the
  single bit n, and \<^verbatim>\<open>poly_sum n a s\<close> evaluates at s the polynomial of the n leading
  coefficients of a. \<^verbatim>\<open>gf128_sqrt_x\<close> is the element whose square is x.
\<close>

definition gf128_mulx :: "128 word \<Rightarrow> 128 word" where
  "gf128_mulx v = (if bit v 0 then drop_bit 1 v XOR push_bit 120 0xE1 else drop_bit 1 v)"

definition unit_bit :: "nat \<Rightarrow> 128 word" where
  "unit_bit n = push_bit n 1"







section \<open>Properties\<close>

lemma strcmp_eq_0_iff: "strcmp a b = 0 \<longleftrightarrow> a = b"
  by (induction a b rule: strcmp.induct) auto

text \<open>
  C10. \<^verbatim>\<open>authenticate_user\<close> returns \<^verbatim>\<open>SECURE_COMM_SUCCESS\<close> exactly when the username
  is the string "user" and the password is the string "pass"; for every other pair it
  returns \<^verbatim>\<open>SECURE_COMM_ERR_SESSION\<close>.
\<close>

theorem authenticate_user_hardcoded:
  "fst (authenticate_user u p) =
     (if u = ''user'' \<and> p = ''pass'' then SECURE_COMM_SUCCESS else SECURE_COMM_ERR_SESSION)"
  by (simp add: authenticate_user_def strcmp_eq_0_iff)

theorem authenticate_user_hardcoded_witness:
  "fst (authenticate_user ''user'' ''pass'') = SECURE_COMM_SUCCESS
   \<and> fst (authenticate_user ''user'' ''wrongpass'') = SECURE_COMM_ERR_SESSION"
  using authenticate_user_hardcoded [of "''user''" "''pass''"]
        authenticate_user_hardcoded [of "''user''" "''wrongpass''"]
  by simp

subsection \<open>Session establishment and teardown\<close>

lemma length_sha256_output: "length (sha256_output st) = 32"
  by (induction st rule: sha256_output.induct) (simp add: bytes_of_be32_def)

lemma length_SHA256: "length (SHA256 m) = 32"
  by (simp add: SHA256_def length_sha256_output)

lemma authenticate_user_events:
  "fst (authenticate_user u p) \<noteq> SECURE_COMM_SUCCESS \<Longrightarrow>
   authenticate_user u p =
     (SECURE_COMM_ERR_SESSION,
      [Ev_stderr (''authenticate_user: Invalid credentials for user '' @ quoted u)])"
  by (simp add: authenticate_user_def split: if_splits)

lemma derive_success:
  assumes "dh_keypair s = Some kp"
      and "fst (derive_shared_secret env (Some s)) = SECURE_COMM_SUCCESS"
  shows "derive_shared_secret env (Some s) =
           (SECURE_COMM_SUCCESS,
            Some (s\<lparr>peer_dh_public := Some kp, session_key_len := 32,
                    session_key := Some (SHA256 (DH_compute_key kp kp))\<rparr>),
            [Ev_alloc R_peer_key, Ev_alloc R_pkey_ctx, Ev_alloc R_secret,
             Ev_call ''EVP_PKEY_derive'', Ev_free R_pkey_ctx,
             Ev_call ''SHA256'', Ev_free_buf R_secret (DH_compute_key kp kp),
             Ev_alloc R_session_key])"
  using assms
  by (simp add: derive_shared_secret_def SHA256_DIGEST_LENGTH_def length_SHA256 Let_def
           split: if_splits)

lemma derive_success_has_keypair:
  "fst (derive_shared_secret env (Some s)) = SECURE_COMM_SUCCESS \<Longrightarrow> dh_keypair s \<noteq> None"
  by (cases "dh_keypair s") (simp_all add: derive_shared_secret_def)

lemma derive_all_ok:
  "dh_keypair s = Some kp \<Longrightarrow>
   fst (derive_shared_secret all_ok_derive_env (Some s)) = SECURE_COMM_SUCCESS"
  by (simp add: derive_shared_secret_def all_ok_derive_env_def Let_def)

text \<open>
  C4. When the credentials do not authenticate and the run reaches the authentication
  step (the arguments are not null and the session object was allocated),
  \<^verbatim>\<open>initialize_session\<close> returns the authentication error
  \<^verbatim>\<open>SECURE_COMM_ERR_SESSION\<close>, leaves the caller's session pointer as it was, makes no
  key-generation, derivation or hashing call, and releases the one object it allocated.
\<close>

theorem initialize_session_auth_gate:
  assumes "fst (authenticate_user u p) \<noteq> SECURE_COMM_SUCCESS"
      and "malloc_session_ok env"
  shows "case initialize_session env (Some u) (Some p) (Some cell) of
           (ret, out, ev) \<Rightarrow>
             ret = fst (authenticate_user u p) \<and> ret = SECURE_COMM_ERR_SESSION
             \<and> out = Some cell
             \<and> library_calls ev = []
             \<and> allocated ev = [R_session] \<and> released ev = [R_session]"
  using assms
  by (simp add: initialize_session_def authenticate_user_events
        library_calls_def allocated_def released_def)

theorem initialize_session_auth_gate_witness:
  "case initialize_session all_ok_session_env (Some ''user'') (Some ''wrongpass'') (Some None) of
     (ret, out, ev) \<Rightarrow>
       ret = SECURE_COMM_ERR_SESSION \<and> out = Some None \<and> library_calls ev = []
       \<and> allocated ev = [R_session] \<and> released ev = [R_session]"
proof -
  have a: "fst (authenticate_user ''user'' ''wrongpass'') \<noteq> SECURE_COMM_SUCCESS"
    by (simp add: authenticate_user_def)
  have b: "malloc_session_ok all_ok_session_env"
    by (simp add: all_ok_session_env_def)
  show ?thesis
    using initialize_session_auth_gate [OF a b, of None]
    by (simp split: prod.splits)
qed

text \<open>
  C5. Whenever \<^verbatim>\<open>derive_shared_secret\<close> succeeds, the session key it stores is the
  SHA-256 digest of the raw Diffie-Hellman secret and is 32 bytes long; the buffer with
  the raw secret is released right after the hash is taken, and the session keeps the
  digest only.
\<close>

theorem derive_key_is_hash:
  assumes "dh_keypair s = Some kp"
      and "fst (derive_shared_secret env (Some s)) = SECURE_COMM_SUCCESS"
  shows "derive_shared_secret env (Some s) =
           (SECURE_COMM_SUCCESS,
            Some (s\<lparr>peer_dh_public := Some kp, session_key_len := 32,
                    session_key := Some (SHA256 (DH_compute_key kp kp))\<rparr>),
            [Ev_alloc R_peer_key, Ev_alloc R_pkey_ctx, Ev_alloc R_secret,
             Ev_call ''EVP_PKEY_derive'', Ev_free R_pkey_ctx,
             Ev_call ''SHA256'', Ev_free_buf R_secret (DH_compute_key kp kp),
             Ev_alloc R_session_key])
         \<and> length (SHA256 (DH_compute_key kp kp)) = 32"
  using derive_success [OF assms] by (simp add: length_SHA256)

theorem derive_key_is_hash_witness:
  "derived_key (derive_shared_secret all_ok_derive_env (Some session_without_peer))
     = Some (SHA256 (DH_compute_key sample_keypair sample_keypair))
   \<and> length (SHA256 (DH_compute_key sample_keypair sample_keypair)) = 32"
proof -
  have a: "dh_keypair session_without_peer = Some sample_keypair"
    by (simp add: session_without_peer_def)
  show ?thesis
    using derive_key_is_hash [OF a derive_all_ok [OF a]] by (simp add: derived_key_def)
qed

text \<open>
  C6, as the code has it. The derived key is a function of the local key pair alone:
  two successful runs on sessions with the same local key pair store the same session
  key, whatever peer key either session held before the call.
\<close>

theorem derive_deterministic_in_keypair:
  assumes "dh_keypair s1 = dh_keypair s2"
      and "fst (derive_shared_secret env1 (Some s1)) = SECURE_COMM_SUCCESS"
      and "fst (derive_shared_secret env2 (Some s2)) = SECURE_COMM_SUCCESS"
  shows "derived_key (derive_shared_secret env1 (Some s1))
           = derived_key (derive_shared_secret env2 (Some s2))
         \<and> derived_key (derive_shared_secret env1 (Some s1)) \<noteq> None"
proof -
  from derive_success_has_keypair [OF assms(2)]
  obtain kp where kp: "dh_keypair s1 = Some kp" by blast
  with assms(1) have kp2: "dh_keypair s2 = Some kp" by simp
  show ?thesis
    by (simp add: derive_success [OF kp assms(2)] derive_success [OF kp2 assms(3)]
          derived_key_def)
qed

theorem derive_deterministic_in_keypair_witness:
  "derived_key (derive_shared_secret all_ok_derive_env (Some session_with_peer))
     = derived_key (derive_shared_secret all_ok_derive_env (Some session_without_peer))
   \<and> derived_key (derive_shared_secret all_ok_derive_env (Some session_with_peer)) \<noteq> None"
proof -
  have a: "dh_keypair session_with_peer = Some sample_keypair"
    by (simp add: session_with_peer_def session_without_peer_def)
  have b: "dh_keypair session_without_peer = Some sample_keypair"
    by (simp add: session_without_peer_def)
  have c: "dh_keypair session_with_peer = dh_keypair session_without_peer"
    by (simp add: a b)
  show ?thesis
    using derive_deterministic_in_keypair [OF c derive_all_ok [OF a] derive_all_ok [OF b]] .
qed

text \<open>
  C6, as stated, fails: two sessions with the same local key pair and different peer
  public keys derive the same session key.
\<close>

theorem derive_same_key_for_different_peers:
  "peer_dh_public session_with_peer = Some sample_peer_public
   \<and> peer_dh_public session_without_peer = None
   \<and> dh_pub sample_peer_public \<noteq> dh_pub sample_keypair
   \<and> dh_keypair session_with_peer = dh_keypair session_without_peer
   \<and> fst (derive_shared_secret all_ok_derive_env (Some session_with_peer)) = SECURE_COMM_SUCCESS
   \<and> fst (derive_shared_secret all_ok_derive_env (Some session_without_peer)) = SECURE_COMM_SUCCESS
   \<and> derived_key (derive_shared_secret all_ok_derive_env (Some session_with_peer))
       = derived_key (derive_shared_secret all_ok_derive_env (Some session_without_peer))
   \<and> derived_key (derive_shared_secret all_ok_derive_env (Some session_with_peer)) \<noteq> None"
proof -
  have a: "dh_keypair session_with_peer = Some sample_keypair"
    by (simp add: session_with_peer_def session_without_peer_def)
  have b: "dh_keypair session_without_peer = Some sample_keypair"
    by (simp add: session_without_peer_def)
  have c: "dh_pub sample_peer_public \<noteq> dh_pub sample_keypair"
    by (simp add: sample_peer_public_def sample_keypair_def)
  have d: "peer_dh_public session_with_peer = Some sample_peer_public"
    by (simp add: session_with_peer_def)
  have e: "peer_dh_public session_without_peer = None"
    by (simp add: session_without_peer_def zeroed_session_def)
  show ?thesis
    by (simp add: a b c d e derive_all_ok [OF a] derive_all_ok [OF b]
          derive_success [OF a derive_all_ok [OF a]] derive_success [OF b derive_all_ok [OF b]]
          derived_key_def)
qed

text \<open>
  C8. On a session whose key buffer is as long as \<^verbatim>\<open>session_key_len\<close> says,
  \<^verbatim>\<open>terminate_session\<close> first wipes the key and then releases the buffer, which holds
  only zero bytes at that moment; on a null session it does nothing.
\<close>

theorem terminate_session_zeroes_key:
  assumes "session_key s = Some k" and "session_key_len s = length k"
  shows "freed_key_bytes (terminate_session (Some s)) = [replicate (length k) 0]
         \<and> take 2 (terminate_session (Some s))
             = [Ev_call ''OPENSSL_cleanse'', Ev_free_buf R_session_key (replicate (length k) 0)]
         \<and> terminate_session None = []"
  using assms
  by (simp add: terminate_session_def freed_key_bytes_def OPENSSL_cleanse_def)

theorem terminate_session_zeroes_key_witness:
  "freed_key_bytes (terminate_session (Some (zeroed_session
       \<lparr>session_key := Some [1, 2, 3, 4], session_key_len := 4\<rparr>)))
     = [[0, 0, 0, 0]]
   \<and> terminate_session None = []"
  using terminate_session_zeroes_key
    [of "zeroed_session\<lparr>session_key := Some [1, 2, 3, 4], session_key_len := 4\<rparr>" "[1, 2, 3, 4]"]
  by (simp add: numeral_eq_Suc)

subsection \<open>Authenticated encryption\<close>















lemma decrypt_data_codes:
  "fst (decrypt_data env ciphertext key iv plaintext plaintext_len tag)
     \<in> {SECURE_COMM_SUCCESS, SECURE_COMM_ERR_DECRYPT}"
  by (cases ciphertext; cases key; cases iv; cases plaintext; cases plaintext_len; cases tag)
     (simp_all add: decrypt_data_def Let_def EVP_DecryptUpdate_def)









subsection \<open>The field of GHASH\<close>

text \<open>
  \<^verbatim>\<open>gf128_mult\<close> is additive in both operands, commutative and associative, with unit
  \<^verbatim>\<open>gf128_one\<close>. Squaring is additive and reaches every element, so it is injective on the
  finite field, and no power of a non-zero element is zero. Multiplication by x is
  injective, so the product of a single-bit block with a power of a non-zero element is
  not zero.
\<close>

lemma bit_unit_bit: "bit (unit_bit n) k \<longleftrightarrow> k = n \<and> n < 128"
  by (auto simp add: unit_bit_def bit_simps)






lemma unit_bit_out: "128 \<le> n \<Longrightarrow> unit_bit n = 0"
  by (rule bit_word_eqI) (simp add: bit_unit_bit)




lemma gf128_mulx_0: "gf128_mulx 0 = 0"
  by (simp add: gf128_mulx_def)

















































subsection \<open>A flipped ciphertext bit changes the tag\<close>




















subsection \<open>The hash subkey of the predefined key\<close>







subsection \<open>A zero hash subkey\<close>



subsection \<open>Tamper detection\<close>




text \<open>
  C9. Whatever makes \<^verbatim>\<open>decrypt_data\<close> fail (a null argument, a failure inside the
  library, a tag that does not match), the value returned is
  \<^verbatim>\<open>SECURE_COMM_ERR_DECRYPT\<close>, -11.
\<close>

theorem decrypt_data_single_error:
  "fst (decrypt_data env ciphertext key iv plaintext plaintext_len tag) \<noteq> SECURE_COMM_SUCCESS
   \<Longrightarrow> fst (decrypt_data env ciphertext key iv plaintext plaintext_len tag) = SECURE_COMM_ERR_DECRYPT
       \<and> error_code (fst (decrypt_data env ciphertext key iv plaintext plaintext_len tag)) = -11"
  using decrypt_data_codes [of env ciphertext key iv plaintext plaintext_len tag] by auto

theorem decrypt_data_single_error_witness:
  "fst (decrypt_data all_ok_decrypt_env None (Some predefined_session_key) (Some sample_iv)
          (Some []) (Some 0) (Some sample_tag)) = SECURE_COMM_ERR_DECRYPT
   \<and> error_code (fst (decrypt_data all_ok_decrypt_env None (Some predefined_session_key)
          (Some sample_iv) (Some []) (Some 0) (Some sample_tag))) = -11"
proof -
  have "fst (decrypt_data all_ok_decrypt_env None (Some predefined_session_key) (Some sample_iv)
          (Some []) (Some 0) (Some sample_tag)) \<noteq> SECURE_COMM_SUCCESS"
    by (simp add: decrypt_data_def)
  from decrypt_data_single_error [OF this] show ?thesis .
qed

subsection \<open>Inbound flow\<close>

text \<open>
  C3. On either side, when \<^verbatim>\<open>recv\<close> yields between 1 and 27 bytes the loop body logs
  that the data is too short and goes on; it does not call \<^verbatim>\<open>decrypt_data\<close>. (A read
  of no bytes means that the peer has closed the connection.)
\<close>

theorem short_frame_rejected:
  assumes "recv_outcome inp = Recv_bytes received"
      and "received \<noteq> []"
      and "length received < IV_SIZE + TAG_SIZE"
  shows "receiver_thread_func_body side key inp =
           ([Ev_log LOG_LEVEL_ERROR ''Received data is too short to contain IV and tag''], True)
         \<and> library_calls (fst (receiver_thread_func_body side key inp)) = []"
  using assms
  by (simp add: receiver_thread_func_body_def Let_def library_calls_def
        IV_SIZE_def TAG_SIZE_def BUFFER_SIZE_def)

theorem short_frame_rejected_witness:
  "receiver_thread_func_body Client predefined_session_key short_frame_input =
     ([Ev_log LOG_LEVEL_ERROR ''Received data is too short to contain IV and tag''], True)
   \<and> library_calls (fst (receiver_thread_func_body Client predefined_session_key short_frame_input))
       = []"
proof -
  have a: "recv_outcome short_frame_input = Recv_bytes [1, 2, 3]"
    by (simp add: short_frame_input_def)
  have b: "[1, 2, 3 :: byte] \<noteq> []" by simp
  have c: "length [1, 2, 3 :: byte] < IV_SIZE + TAG_SIZE"
    by (simp add: IV_SIZE_def TAG_SIZE_def)
  show ?thesis using short_frame_rejected [OF a b c] .
qed

lemma rejected_frame_body:
  assumes "rejected_frame key inp"
  shows "\<exists>ev msg. receiver_thread_func_body side key inp = (ev @ [Ev_log LOG_LEVEL_ERROR msg], True)
                 \<and> console_output (ev @ [Ev_log LOG_LEVEL_ERROR msg]) = []"
proof -
  from assms obtain received where r: "recv_outcome inp = Recv_bytes received"
    by (cases "recv_outcome inp") (simp_all add: rejected_frame_def)
  let ?buffer = "take BUFFER_SIZE received"
  let ?d = "decrypt_data (decrypt_outcomes inp) (Some (drop (IV_SIZE + TAG_SIZE) ?buffer))
              (Some key) (Some (take IV_SIZE ?buffer)) (Some (stack_garbage inp)) (Some 0)
              (Some (take TAG_SIZE (drop IV_SIZE ?buffer)))"
  from assms r have ne: "?buffer \<noteq> []"
    and bad: "length ?buffer < IV_SIZE + TAG_SIZE \<or> fst ?d \<noteq> SECURE_COMM_SUCCESS"
    by (simp_all add: rejected_frame_def Let_def)
  show ?thesis
  proof (cases "length ?buffer < IV_SIZE + TAG_SIZE")
    case True
    with ne r have "receiver_thread_func_body side key inp =
        ([] @ [Ev_log LOG_LEVEL_ERROR ''Received data is too short to contain IV and tag''], True)"
      by (simp add: receiver_thread_func_body_def Let_def)
    moreover have "console_output
        ([] @ [Ev_log LOG_LEVEL_ERROR ''Received data is too short to contain IV and tag'']) = []"
      by (simp add: console_output_def)
    ultimately show ?thesis by blast
  next
    case False
    with bad have f: "fst ?d \<noteq> SECURE_COMM_SUCCESS" by simp
    obtain ret buf len ev where d: "?d = (ret, buf, len, ev)" by (cases ?d) auto
    with f have ret: "ret \<noteq> SECURE_COMM_SUCCESS" by simp
    have nostdout: "console_output ev = []"
      using d
      by (auto simp add: decrypt_data_def Let_def EVP_DecryptUpdate_def console_output_def
            split: if_splits)
    define msg where "msg = (case side of
        Client \<Rightarrow> ''Failed to decrypt message. Error code: '' @ string_of_int (error_code ret)
      | Server peer \<Rightarrow> ''Failed to decrypt message from '' @ peer @ ''. Error code: ''
                        @ string_of_int (error_code ret))"
    from False ne r d ret
    have "receiver_thread_func_body side key inp =
            ((Ev_call ''decrypt_data'' # ev) @ [Ev_log LOG_LEVEL_ERROR msg], True)"
      by (cases side) (simp_all add: receiver_thread_func_body_def Let_def msg_def)
    moreover have "console_output ((Ev_call ''decrypt_data'' # ev) @ [Ev_log LOG_LEVEL_ERROR msg]) = []"
      using nostdout by (simp add: console_output_def)
    ultimately show ?thesis by blast
  qed
qed

text \<open>
  C7. On either side, a received frame that is too short or that \<^verbatim>\<open>decrypt_data\<close>
  rejects makes the loop body log an error, print nothing to the console and go on: the
  loop continues with the next outcome of \<^verbatim>\<open>recv\<close> exactly as it would have without
  the corrupt frame.
\<close>

theorem corrupt_frame_keeps_connection:
  assumes "rejected_frame key inp"
  shows "\<exists>ev msg.
           receiver_thread_func_body side key inp = (ev @ [Ev_log LOG_LEVEL_ERROR msg], True)
           \<and> console_output (ev @ [Ev_log LOG_LEVEL_ERROR msg]) = []
           \<and> receiver_thread_func side key (inp # rest) =
               (ev @ [Ev_log LOG_LEVEL_ERROR msg] @ fst (receiver_thread_func side key rest),
                snd (receiver_thread_func side key rest))"
proof -
  from rejected_frame_body [OF assms, of side]
  obtain ev msg where b: "receiver_thread_func_body side key inp = (ev @ [Ev_log LOG_LEVEL_ERROR msg], True)"
    and c: "console_output (ev @ [Ev_log LOG_LEVEL_ERROR msg]) = []"
    by blast
  have "receiver_thread_func side key (inp # rest) =
          (ev @ [Ev_log LOG_LEVEL_ERROR msg] @ fst (receiver_thread_func side key rest),
           snd (receiver_thread_func side key rest))"
    by (simp add: b split: prod.splits)
  with b c show ?thesis by blast
qed

theorem corrupt_frame_keeps_connection_witness:
  "\<exists>ev msg.
     receiver_thread_func_body Client predefined_session_key short_frame_input
       = (ev @ [Ev_log LOG_LEVEL_ERROR msg], True)
     \<and> console_output (ev @ [Ev_log LOG_LEVEL_ERROR msg]) = []
     \<and> receiver_thread_func Client predefined_session_key [short_frame_input, short_frame_input] =
         (ev @ [Ev_log LOG_LEVEL_ERROR msg]
            @ fst (receiver_thread_func Client predefined_session_key [short_frame_input]),
          snd (receiver_thread_func Client predefined_session_key [short_frame_input]))"
proof -
  have "rejected_frame predefined_session_key short_frame_input"
    by (simp add: rejected_frame_def short_frame_input_def Let_def BUFFER_SIZE_def
          IV_SIZE_def TAG_SIZE_def)
  from corrupt_frame_keeps_connection [OF this] show ?thesis .
qed

end
